theory Spec2Isabelle
  imports Main "HOL-Library.Sublist"
begin

section \<open>JavaScript strings\<close>

text \<open>
  Strings are modelled as \<^typ>\<open>string\<close>, one \<^typ>\<open>char\<close> per UTF-16 code unit; the
  model covers the strings whose code units are below 256 (Latin-1). There
  \<open>toLowerCase\<close> adds 32 to the code units of \<open>A..Z\<close> (65..90) and of the letters
  U+00C0..U+00DE (192..222, all but the multiplication sign 215), and leaves every
  other character alone; the white space of \<open>\s\<close> and of \<open>trim\<close> is tab, line feed,
  vertical tab, form feed, carriage return, space and the no-break space U+00A0.
\<close>

datatype js_error = SyntaxError | TypeError

definition toLowerChar :: "char \<Rightarrow> char" where
  "toLowerChar c =
     (let n = of_char c :: nat
      in if (65 \<le> n \<and> n \<le> 90) \<or> (192 \<le> n \<and> n \<le> 222 \<and> n \<noteq> 215)
         then char_of (n + 32)
         else c)"

definition toLowerCase :: "string \<Rightarrow> string" where
  "toLowerCase s = map toLowerChar s"

definition isWhiteSpace :: "char \<Rightarrow> bool" where
  "isWhiteSpace c =
     (c \<in> set [CHR 0x09, CHR 0x0A, CHR 0x0B, CHR 0x0C, CHR 0x0D, CHR '' '', CHR 0xA0])"

text \<open>\<open>s.includes(t)\<close>: \<open>t\<close> occurs in \<open>s\<close> as a contiguous substring.\<close>

fun includes_str :: "string \<Rightarrow> string \<Rightarrow> bool" where
  "includes_str [] t = (t = [])"
| "includes_str (c # s) t = (prefix t (c # s) \<or> includes_str s t)"

text \<open>\<open>s.trim()\<close>.\<close>

definition trim :: "string \<Rightarrow> string" where
  "trim s = rev (dropWhile isWhiteSpace (rev (dropWhile isWhiteSpace s)))"

text \<open>
  \<open>s.split(/\s+/)\<close>: the pieces between maximal runs of white space. A run at the start
  or at the end leaves an empty piece there, and the empty string splits into one empty
  piece. The first argument is the piece being read, reversed.
\<close>

function splitWhitespace :: "string \<Rightarrow> string \<Rightarrow> string list" where
  "splitWhitespace cur [] = [rev cur]"
| "splitWhitespace cur (c # cs) =
     (if isWhiteSpace c then rev cur # splitWhitespace [] (dropWhile isWhiteSpace cs)
      else splitWhitespace (c # cur) cs)"
  by pat_completeness auto
termination
  by (relation "measure (\<lambda>(cur, s). length s)")
     (auto simp: length_dropWhile_le less_Suc_eq_le)

text \<open>A template literal \<open>${n}\<close> of a non-negative integer: its decimal digits.\<close>

definition digitChar :: "nat \<Rightarrow> char" where
  "digitChar d = ''0123456789'' ! d"

function numberToString :: "nat \<Rightarrow> string" where
  "numberToString n =
     (if n < 10 then [digitChar n] else numberToString (n div 10) @ [digitChar (n mod 10)])"
  by pat_completeness auto
termination
  by (relation "measure id") auto

declare numberToString.simps [simp del]

text \<open>
  \<open>xs.slice(0, n)\<close> for an integer \<open>n\<close>: a negative \<open>n\<close> counts from the end of the
  array.
\<close>

definition slice0 :: "'a list \<Rightarrow> int \<Rightarrow> 'a list" where
  "slice0 xs n = (if n < 0 then take (nat (int (length xs) + n)) xs else take (nat n) xs)"

section \<open>Node's \<open>path.extname\<close>\<close>

text \<open>
  POSIX flavour: the extension is taken from the last component of the path (trailing
  slashes ignored), from its last dot on. There is none when the component has no dot,
  when its only dot is its first character, or when the component is \<open>..\<close>.
\<close>

definition lastComponent :: "string \<Rightarrow> string" where
  "lastComponent p =
     rev (takeWhile (\<lambda>c. c \<noteq> CHR ''/'') (dropWhile (\<lambda>c. c = CHR ''/'') (rev p)))"

definition extname :: "string \<Rightarrow> string" where
  "extname p =
     (let b = lastComponent p;
          e = rev (takeWhile (\<lambda>c. c \<noteq> CHR ''.'') (rev b))
      in if CHR ''.'' \<notin> set b then []
         else if Suc (length e) = length b then []
         else if b = ''..'' then []
         else CHR ''.'' # e)"

section \<open>The regular expression built from a query word\<close>

text \<open>
  \<open>new RegExp(word, 'gi')\<close> reads the word as a pattern. The model covers the patterns
  written with pattern characters, \<open>.\<close> and the quantifier characters \<open>*\<close>, \<open>+\<close>, \<open>?\<close>:
  \<^item> a word of pattern characters and dots is a sequence of atoms, and the number of
    matches that \<open>content.match\<close> returns under the flag \<open>g\<close> is computed here;
  \<^item> a word that also has quantifier characters is parsed here: a quantifier with no
    atom before it (\<open>*\<close>, \<open>+\<close> or \<open>?\<close> at the start, \<open>c++\<close>, \<open>a?*\<close>) makes the constructor
    throw SyntaxError ("Nothing to repeat");
  \<^item> everything else (a well-formed quantified pattern, or a word with any other syntax
    character) is left to the parameter \<open>eng\<close>, which stands for the ECMAScript
    engine: the number of matches, or the error of the constructor.
\<close>

type_synonym regexp_engine = "string \<Rightarrow> string \<Rightarrow> js_error + nat"

definition isSyntaxCharacter :: "char \<Rightarrow> bool" where
  "isSyntaxCharacter c = (c \<in> set (CHR 0x5C # ''^$.*+?()[]{}|''))"

definition isQuantifierChar :: "char \<Rightarrow> bool" where
  "isQuantifierChar c = (c \<in> set ''*+?'')"

definition isLineTerminator :: "char \<Rightarrow> bool" where
  "isLineTerminator c = (c \<in> set [CHR 0x0A, CHR 0x0D])"

datatype atom = AnyChar | PatternChar char

definition toAtom :: "char \<Rightarrow> atom" where
  "toAtom c = (if c = CHR ''.'' then AnyChar else PatternChar c)"

text \<open>Under the flag \<open>i\<close> a pattern character matches both cases of a letter.\<close>

fun atomMatches :: "atom \<Rightarrow> char \<Rightarrow> bool" where
  "atomMatches AnyChar c = (\<not> isLineTerminator c)"
| "atomMatches (PatternChar p) c = (toLowerChar p = toLowerChar c)"

fun matchesAt :: "atom list \<Rightarrow> string \<Rightarrow> bool" where
  "matchesAt [] s = True"
| "matchesAt (a # as) [] = False"
| "matchesAt (a # as) (c # s) = (atomMatches a c \<and> matchesAt as s)"

text \<open>
  The matches of a global regular expression are found left to right, each search
  starting where the previous match ended (one position further after an empty match).
\<close>

function countMatches :: "atom list \<Rightarrow> string \<Rightarrow> nat" where
  "countMatches as [] = (if as = [] then 1 else 0)"
| "countMatches as (c # s) =
     (if matchesAt as (c # s) then Suc (countMatches as (drop (length as - 1) s))
      else countMatches as s)"
  by pat_completeness auto
termination
  by (relation "measure (\<lambda>(as, s). length s)") auto

datatype quantifier_state = NoAtom | AfterAtom | AfterQuantifier

text \<open>
  The terms of a pattern over pattern characters, \<open>.\<close> and quantifier characters: each
  quantifier follows an atom, and only \<open>?\<close> (making it lazy) may follow a quantifier.
\<close>

fun termsOk :: "quantifier_state \<Rightarrow> string \<Rightarrow> bool" where
  "termsOk st [] = True"
| "termsOk NoAtom (c # cs) = (if isQuantifierChar c then False else termsOk AfterAtom cs)"
| "termsOk AfterAtom (c # cs) =
     (if isQuantifierChar c then termsOk AfterQuantifier cs else termsOk AfterAtom cs)"
| "termsOk AfterQuantifier (c # cs) =
     (if c = CHR ''?'' then termsOk NoAtom cs
      else if isQuantifierChar c then False
      else termsOk AfterAtom cs)"

definition isAtomPattern :: "string \<Rightarrow> bool" where
  "isAtomPattern word = list_all (\<lambda>c. c = CHR ''.'' \<or> \<not> isSyntaxCharacter c) word"

definition isQuantifiedPattern :: "string \<Rightarrow> bool" where
  "isQuantifiedPattern word =
     list_all (\<lambda>c. c = CHR ''.'' \<or> isQuantifierChar c \<or> \<not> isSyntaxCharacter c) word"

text \<open>\<open>(content.match(new RegExp(word, 'gi')) || []).length\<close>.\<close>

definition regExpMatchCount :: "regexp_engine \<Rightarrow> string \<Rightarrow> string \<Rightarrow> js_error + nat" where
  "regExpMatchCount eng word content =
     (if isAtomPattern word then Inr (countMatches (map toAtom word) content)
      else if isQuantifiedPattern word \<and> \<not> termsOk NoAtom word then Inl SyntaxError
      else eng word content)"

section \<open>Relevance scoring (\<open>CodebaseAnalyzer.calculateRelevanceScore\<close>)\<close>

record CodeFile =
  path :: string
  content :: string
  size_f :: nat

text \<open>The three \<open>forEach\<close> loops over the query words, each adding to \<open>score\<close>.\<close>

fun scoreFilename :: "string \<Rightarrow> string list \<Rightarrow> nat \<Rightarrow> nat" where
  "scoreFilename p [] score = score"
| "scoreFilename p (word # ws) score =
     scoreFilename p ws (if includes_str (toLowerCase p) word then score + 10 else score)"

fun scoreExtension :: "string \<Rightarrow> string list \<Rightarrow> nat \<Rightarrow> nat" where
  "scoreExtension fileExt [] score = score"
| "scoreExtension fileExt (word # ws) score =
     scoreExtension fileExt ws (if includes_str word (drop 1 fileExt) then score + 5 else score)"

fun scoreContent :: "regexp_engine \<Rightarrow> string \<Rightarrow> string list \<Rightarrow> nat \<Rightarrow> js_error + nat" where
  "scoreContent eng text [] score = Inr score"
| "scoreContent eng text (word # ws) score =
     (case regExpMatchCount eng word text of
        Inl e \<Rightarrow> Inl e
      | Inr matches \<Rightarrow> scoreContent eng text ws (score + min matches 5))"

definition queryWords :: "string \<Rightarrow> string list" where
  "queryWords query = filter (\<lambda>word. length word > 2) (splitWhitespace [] (toLowerCase query))"

definition sizeBonus :: "nat \<Rightarrow> nat \<Rightarrow> nat" where
  "sizeBonus sz score = (if sz < 1000 then score + 2 else if sz < 5000 then score + 1 else score)"

definition calculateRelevanceScore :: "regexp_engine \<Rightarrow> 'a CodeFile_scheme \<Rightarrow> string \<Rightarrow> js_error + nat" where
  "calculateRelevanceScore eng file query =
     (let ws = queryWords query;
          score = scoreFilename (path file) ws 0;
          fileExt = toLowerCase (extname (path file));
          score = scoreExtension fileExt ws score
      in case scoreContent eng (toLowerCase (content file)) ws score of
           Inl e \<Rightarrow> Inl e
         | Inr score \<Rightarrow> Inr (sizeBonus (size_f file) score))"

section \<open>The scoring formula as the specification words it\<close>

text \<open>
  The number of case-insensitive occurrences of a token in a text, counted left to right
  without overlap.
\<close>

fun startsWithIgnoreCase :: "string \<Rightarrow> string \<Rightarrow> bool" where
  "startsWithIgnoreCase s [] = True"
| "startsWithIgnoreCase [] (t # ts) = False"
| "startsWithIgnoreCase (c # s) (t # ts) =
     (toLowerChar c = toLowerChar t \<and> startsWithIgnoreCase s ts)"

function occurrences :: "string \<Rightarrow> string \<Rightarrow> nat" where
  "occurrences token [] = (if token = [] then 1 else 0)"
| "occurrences token (c # s) =
     (if startsWithIgnoreCase (c # s) token
      then Suc (occurrences token (drop (length token - 1) s))
      else occurrences token s)"
  by pat_completeness auto
termination
  by (relation "measure (\<lambda>(t, s). length s)") auto

definition spec_tokens :: "string \<Rightarrow> string list" where
  "spec_tokens query = filter (\<lambda>t. \<not> length t \<le> 2) (splitWhitespace [] (toLowerCase query))"

definition spec_size_bonus :: "nat \<Rightarrow> nat" where
  "spec_size_bonus sz = (if sz < 1000 then 2 else if sz < 5000 then 1 else 0)"

text \<open>
  What one token adds: 10 for the path, 5 for the extension (given without its dot), and
  the capped number of occurrences in the content.
\<close>

definition spec_token_score :: "string \<Rightarrow> string \<Rightarrow> string \<Rightarrow> string \<Rightarrow> nat" where
  "spec_token_score lowerPath ext text t =
     (if includes_str lowerPath t then 10 else 0)
     + (if includes_str t ext then 5 else 0)
     + min (occurrences t text) 5"

text \<open>The formula with the file's extension taken as it is written in the path.\<close>

definition spec_score :: "'a CodeFile_scheme \<Rightarrow> string \<Rightarrow> nat" where
  "spec_score file query =
     (\<Sum>t\<leftarrow>spec_tokens query.
        spec_token_score (toLowerCase (path file)) (drop 1 (extname (path file)))
          (content file) t)
     + spec_size_bonus (size_f file)"

text \<open>The formula with the extension lowercased, as the tokens are.\<close>

definition spec_score_lower :: "'a CodeFile_scheme \<Rightarrow> string \<Rightarrow> nat" where
  "spec_score_lower file query =
     (\<Sum>t\<leftarrow>spec_tokens query.
        spec_token_score (toLowerCase (path file))
          (drop 1 (toLowerCase (extname (path file)))) (content file) t)
     + spec_size_bonus (size_f file)"

definition noSyntaxCharacters :: "string \<Rightarrow> bool" where
  "noSyntaxCharacters query =
     list_all (\<lambda>t. list_all (\<lambda>c. \<not> isSyntaxCharacter c) t) (spec_tokens query)"

definition rejectingEngine :: regexp_engine where
  "rejectingEngine word text = Inl SyntaxError"

section \<open>File discovery (\<open>CodebaseAnalyzer.getAllCodeFiles\<close>)\<close>

text \<open>
  The workspace on disk is a finite tree. A regular file carries what \<open>readFileSync\<close>
  returns (\<open>None\<close> when the read throws), a directory the entries \<open>readdirSync\<close> lists,
  in order; \<open>UnreadableDirectory\<close> is a directory whose listing throws and \<open>StatError\<close>
  an entry on which \<open>statSync\<close> throws.
\<close>

datatype fs_node =
    RegularFile "string option"
  | Directory "(string \<times> fs_node) list"
  | UnreadableDirectory
  | StatError

text \<open>
  The filter of the \<open>ignore\<close> package, built by \<open>setupIgnoreFilter\<close> from the built-in
  rules and the project's \<open>.gitignore\<close>: \<open>ignoreFilter.ignores(relativePath)\<close>, which
  answers or throws.
\<close>

type_synonym ignore_filter = "string \<Rightarrow> js_error + bool"

definition codeExtensions :: "string list" where
  "codeExtensions =
     [''.js'', ''.ts'', ''.jsx'', ''.tsx'',
      ''.py'', ''.java'', ''.cpp'', ''.c'', ''.h'',
      ''.cs'', ''.go'', ''.rs'', ''.php'', ''.rb'',
      ''.swift'', ''.kt'', ''.scala'', ''.clj'',
      ''.html'', ''.css'', ''.scss'', ''.sass'',
      ''.json'', ''.xml'', ''.yaml'', ''.yml'',
      ''.md'', ''.txt'', ''.sh'', ''.bat'']"

text \<open>\<open>path.relative(workspaceRoot, path.join(dir, item))\<close>, \<open>dir\<close> given relative to the root.\<close>

definition joinRelative :: "string \<Rightarrow> string \<Rightarrow> string" where
  "joinRelative dir item = (if dir = [] then item else dir @ ''/'' @ item)"

text \<open>
  \<open>searchFiles\<close> is the body of the closure \<open>searchFiles(dir)\<close>, \<open>searchItems\<close> its
  \<open>for\<close> loop; \<open>files\<close> is the array the closure pushes to. An exception inside the
  loop (from \<open>ignores\<close> or \<open>statSync\<close>) is caught by the \<open>try\<close> around the whole
  directory: the rest of that directory is not visited, and what was pushed stays.
\<close>

fun searchFiles :: "ignore_filter \<Rightarrow> string \<Rightarrow> fs_node \<Rightarrow> CodeFile list \<Rightarrow> CodeFile list"
  and searchItems :: "ignore_filter \<Rightarrow> string \<Rightarrow> (string \<times> fs_node) list \<Rightarrow> CodeFile list \<Rightarrow> CodeFile list"
where
  "searchFiles ign dir (Directory items) files = searchItems ign dir items files"
| "searchFiles ign dir UnreadableDirectory files = files"
| "searchFiles ign dir (RegularFile r) files = files"
| "searchFiles ign dir StatError files = files"
| "searchItems ign dir [] files = files"
| "searchItems ign dir ((item, node) # rest) files =
     (let relativePath = joinRelative dir item
      in case ign relativePath of
           Inl e \<Rightarrow> files
         | Inr True \<Rightarrow> searchItems ign dir rest files
         | Inr False \<Rightarrow>
             (case node of
                StatError \<Rightarrow> files
              | Directory sub \<Rightarrow>
                  searchItems ign dir rest (searchFiles ign relativePath (Directory sub) files)
              | UnreadableDirectory \<Rightarrow>
                  searchItems ign dir rest (searchFiles ign relativePath UnreadableDirectory files)
              | RegularFile r \<Rightarrow>
                  if toLowerCase (extname item) \<in> set codeExtensions then
                    (case r of
                       None \<Rightarrow> searchItems ign dir rest files
                     | Some text \<Rightarrow>
                         if length text < 50000
                         then searchItems ign dir rest
                                (files @ [\<lparr>path = relativePath, content = text, size_f = length text\<rparr>])
                         else searchItems ign dir rest files)
                  else searchItems ign dir rest files))"

section \<open>The editor host\<close>

text \<open>
  What the extension reads from its host during one request: the workspace root and the
  tree under it (\<open>None\<close> when the root does not exist), the ignore filter, the regular
  expression engine, the active editor and the setting \<open>maxContextFiles\<close>.
  Of the active editor the code reads \<open>path.basename(document.fileName)\<close>,
  \<open>vscode.workspace.asRelativePath(document.uri)\<close> and \<open>document.getText()\<close>.
\<close>

record Editor =
  baseName :: string
  relativePath :: string
  documentText :: string

record Host =
  workspaceRoot :: string
  rootNode :: "fs_node option"
  ignoreFilter :: ignore_filter
  regExp :: regexp_engine
  activeTextEditor :: "Editor option"
  maxContextFiles :: "int option"

definition getAllCodeFiles :: "Host \<Rightarrow> CodeFile list" where
  "getAllCodeFiles h =
     (case rootNode h of
        Some root \<Rightarrow>
          if workspaceRoot h \<noteq> [] then searchFiles (ignoreFilter h) [] root [] else []
      | None \<Rightarrow> [])"

definition getCurrentFileContent :: "Host \<Rightarrow> string option" where
  "getCurrentFileContent h = map_option documentText (activeTextEditor h)"

definition getCurrentFileName :: "Host \<Rightarrow> string option" where
  "getCurrentFileName h = map_option baseName (activeTextEditor h)"

section \<open>Ranking (\<open>CodebaseAnalyzer.getRelevantFiles\<close>)\<close>

record ScoredFile = CodeFile +
  score :: nat

text \<open>\<open>allFiles.map(file => ({...file, score: ...}))\<close>; the first score that throws ends the map.\<close>

fun scoreFiles :: "regexp_engine \<Rightarrow> string \<Rightarrow> CodeFile list \<Rightarrow> js_error + ScoredFile list" where
  "scoreFiles eng query [] = Inr []"
| "scoreFiles eng query (file # rest) =
     (case calculateRelevanceScore eng file query of
        Inl e \<Rightarrow> Inl e
      | Inr s \<Rightarrow>
          (case scoreFiles eng query rest of
             Inl e \<Rightarrow> Inl e
           | Inr scored \<Rightarrow>
               Inr (\<lparr>path = path file, content = content file, size_f = size_f file, score = s\<rparr>
                    # scored)))"

text \<open>
  \<open>.sort((a, b) => b.score - a.score)\<close>: \<open>Array.prototype.sort\<close> is stable, so the result
  is the stable sort by descending score.
\<close>

definition sortByScore :: "ScoredFile list \<Rightarrow> ScoredFile list" where
  "sortByScore scored = sort_key (\<lambda>f. - int (score f)) scored"

definition getRelevantFiles :: "Host \<Rightarrow> string \<Rightarrow> int \<Rightarrow> ScoredFile list" where
  "getRelevantFiles h query maxFiles =
     (if workspaceRoot h = [] then []
      else let allFiles = getAllCodeFiles h
           in if length allFiles = 0 then []
              else case scoreFiles (regExp h) query allFiles of
                     Inl e \<Rightarrow> []
                   | Inr scoredFiles \<Rightarrow> slice0 (sortByScore scoredFiles) maxFiles)"

section \<open>Context assembly (\<open>ChatProvider\<close>)\<close>

datatype context_mode = Current | Selected | Auto | Whole

record ContextSelection =
  mode :: context_mode
  selectedFiles :: "string list"

record ChatProvider =
  contextSelection :: ContextSelection
  availableFiles :: "ScoredFile list"

text \<open>\<open>refreshAvailableFiles\<close>: the file selector offers the first 50 ranked files.\<close>

definition refreshAvailableFiles :: "Host \<Rightarrow> ChatProvider \<Rightarrow> ChatProvider" where
  "refreshAvailableFiles h cp = cp\<lparr>availableFiles := getRelevantFiles h [] 50\<rparr>"

text \<open>A string or \<open>null\<close> used as a condition: \<open>null\<close> and the empty string are falsy.\<close>

definition truthy :: "string option \<Rightarrow> bool" where
  "truthy v = (case v of None \<Rightarrow> False | Some s \<Rightarrow> s \<noteq> [])"

text \<open>
  \<open>activeEditor ? vscode.workspace.asRelativePath(activeEditor.document.uri) : currentFileName\<close>
\<close>

definition relativePathOr :: "Host \<Rightarrow> string \<Rightarrow> string" where
  "relativePathOr h currentFileName =
     (case activeTextEditor h of Some e \<Rightarrow> relativePath e | None \<Rightarrow> currentFileName)"

definition truncatedContent :: "nat \<Rightarrow> string \<Rightarrow> string" where
  "truncatedContent n text =
     (if length text > n then take n text @ ''\<newline>... (truncated)'' else text)"

definition buildCurrentFileContext :: "Host \<Rightarrow> string" where
  "buildCurrentFileContext h =
     (case (getCurrentFileContent h, getCurrentFileName h) of
        (Some currentFile, Some currentFileName) \<Rightarrow>
          if currentFile \<noteq> [] \<and> currentFileName \<noteq> []
          then ''Current file: '' @ relativePathOr h currentFileName
               @ ''\<newline>\<newline>Content:\<newline>'' @ currentFile
          else ''No current file is open.''
      | _ \<Rightarrow> ''No current file is open.'')"

text \<open>The \<open>for\<close> loop of \<open>buildSelectedFilesContext\<close>, appending to \<open>context\<close>.\<close>

fun appendSelected :: "ScoredFile list \<Rightarrow> string list \<Rightarrow> string \<Rightarrow> string" where
  "appendSelected available [] context = context"
| "appendSelected available (filePath # rest) context =
     (case find (\<lambda>f. path f = filePath) available of
        Some file \<Rightarrow>
          appendSelected available rest
            (context @ ''--- File: '' @ path file @ '' ---\<newline>''
             @ content file @ ''\<newline>\<newline>'')
      | None \<Rightarrow> appendSelected available rest context)"

definition buildSelectedFilesContext :: "ChatProvider \<Rightarrow> string" where
  "buildSelectedFilesContext cp =
     (let selected = selectedFiles (contextSelection cp)
      in if length selected = 0
         then ''No files selected. Please select files using the file selector.''
         else appendSelected (availableFiles cp) selected
                (''Selected files ('' @ numberToString (length selected) @ ''):\<newline>\<newline>''))"

definition currentFileIndicators :: "string list" where
  "currentFileIndicators =
     [''what does this do'',
      ''explain this'',
      ''how does this work'',
      ''what is this'',
      ''improve this'',
      ''fix this'',
      ''debug this'',
      ''this function'',
      ''this class'',
      ''this code'']"

definition isQueryAboutCurrentFile :: "string \<Rightarrow> string \<Rightarrow> bool" where
  "isQueryAboutCurrentFile query currentFileName =
     (let lowerQuery = toLowerCase query;
          lowerFileName = toLowerCase currentFileName
      in if includes_str lowerQuery lowerFileName \<or> includes_str lowerQuery ''this file''
            \<or> includes_str lowerQuery ''current file''
         then True
         else list_ex (includes_str lowerQuery) currentFileIndicators)"

text \<open>\<open>currentFileName && file.path.includes(currentFileName)\<close>\<close>

definition duplicatesCurrent :: "string option \<Rightarrow> string \<Rightarrow> bool" where
  "duplicatesCurrent currentFileName p =
     (case currentFileName of None \<Rightarrow> False | Some n \<Rightarrow> n \<noteq> [] \<and> includes_str p n)"

text \<open>
  The \<open>forEach\<close> of \<open>buildAutoContext\<close> over the relevant files; \<open>index\<close> counts every
  file of the array, skipped or not.
\<close>

fun appendRelevant :: "string option \<Rightarrow> ScoredFile list \<Rightarrow> nat \<Rightarrow> string \<Rightarrow> string" where
  "appendRelevant currentFileName [] index context = context"
| "appendRelevant currentFileName (file # rest) index context =
     (if duplicatesCurrent currentFileName (path file)
      then appendRelevant currentFileName rest (index + 1) context
      else appendRelevant currentFileName rest (index + 1)
             (context @ ''--- File '' @ numberToString (index + 1) @ '': '' @ path file
              @ '' ---\<newline>'' @ truncatedContent 2000 (content file) @ ''\<newline>\<newline>''))"

text \<open>\<open>config.get<number>('maxContextFiles') || 3\<close>: an unset setting and 0 give 3.\<close>

definition configuredMaxFiles :: "Host \<Rightarrow> int" where
  "configuredMaxFiles h =
     (case maxContextFiles h of None \<Rightarrow> 3 | Some n \<Rightarrow> if n = 0 then 3 else n)"

text \<open>The part of \<open>buildAutoContext\<close> after the active file ("For broader queries").\<close>

definition addRelevantFiles :: "Host \<Rightarrow> string \<Rightarrow> string \<Rightarrow> string" where
  "addRelevantFiles h query context =
     (let relevantFiles = getRelevantFiles h query (min (configuredMaxFiles h) 2)
      in if length relevantFiles > 0
         then appendRelevant (getCurrentFileName h) relevantFiles 0
                (context @ ''Additional relevant files:\<newline>\<newline>'')
         else context)"

definition buildAutoContext :: "Host \<Rightarrow> string \<Rightarrow> string" where
  "buildAutoContext h query =
     (case (getCurrentFileContent h, getCurrentFileName h) of
        (Some currentFile, Some currentFileName) \<Rightarrow>
          if currentFile \<noteq> [] \<and> currentFileName \<noteq> [] then
            (let relPath = relativePathOr h currentFileName;
                 context = ''Currently viewing file: '' @ relPath @ ''\<newline>Content:\<newline>''
                           @ currentFile @ ''\<newline>\<newline>''
             in if isQueryAboutCurrentFile query currentFileName
                then context @ ''User is asking about the current file ('' @ relPath
                     @ ''). Focus primarily on this file.''
                else addRelevantFiles h query context)
          else addRelevantFiles h query []
      | _ \<Rightarrow> addRelevantFiles h query [])"

text \<open>The \<open>forEach\<close> of \<open>buildWholeCodebaseContext\<close>.\<close>

fun appendWhole :: "ScoredFile list \<Rightarrow> nat \<Rightarrow> string \<Rightarrow> string" where
  "appendWhole [] index context = context"
| "appendWhole (file # rest) index context =
     appendWhole rest (index + 1)
       (context @ ''--- File '' @ numberToString (index + 1) @ '': '' @ path file
        @ '' ---\<newline>'' @ truncatedContent 1500 (content file) @ ''\<newline>\<newline>'')"

definition buildWholeCodebaseContext :: "Host \<Rightarrow> string" where
  "buildWholeCodebaseContext h =
     (let allFiles = getRelevantFiles h [] 20
      in appendWhole allFiles 0
           (''Entire codebase ('' @ numberToString (length allFiles) @ '' files):\<newline>\<newline>''))"

text \<open>
  \<open>buildContextFromSelection\<close>: \<open>assembleContext\<close> is the \<open>switch\<close> inside the \<open>try\<close>, its
  result the assembled string or the exception that left it; \<open>finishContext\<close> is the
  rest of the \<open>try\<close> block and the \<open>catch\<close>. The value returned to the caller is again
  a string or a propagated exception.
\<close>

definition assembleContext :: "ChatProvider \<Rightarrow> Host \<Rightarrow> string \<Rightarrow> js_error + string" where
  "assembleContext cp h query =
     (case mode (contextSelection cp) of
        Current \<Rightarrow> Inr (buildCurrentFileContext h)
      | Selected \<Rightarrow> Inr (buildSelectedFilesContext cp)
      | Auto \<Rightarrow> Inr (buildAutoContext h query)
      | Whole \<Rightarrow> Inr (buildWholeCodebaseContext h))"

definition finishContext :: "js_error + string \<Rightarrow> js_error + string" where
  "finishContext assembled =
     (case assembled of
        Inr context \<Rightarrow>
          if trim context = []
          then Inr ''No specific code context found. Please provide general programming assistance.''
          else Inr context
      | Inl e \<Rightarrow> Inr ''Error accessing codebase context. Providing general assistance.'')"

definition buildContextFromSelection :: "ChatProvider \<Rightarrow> Host \<Rightarrow> string \<Rightarrow> js_error + string" where
  "buildContextFromSelection cp h query = finishContext (assembleContext cp h query)"

section \<open>The invariant of discovered files\<close>

text \<open>
  The readable regular files of a tree, each with its path relative to the root and its
  full text; \<open>dir\<close> is the relative path of the directory the tree stands for.
\<close>

fun readableFiles :: "string \<Rightarrow> fs_node \<Rightarrow> (string \<times> string) list"
  and readableItems :: "string \<Rightarrow> (string \<times> fs_node) list \<Rightarrow> (string \<times> string) list"
where
  "readableFiles dir (Directory items) = readableItems dir items"
| "readableFiles dir (RegularFile r) = []"
| "readableFiles dir UnreadableDirectory = []"
| "readableFiles dir StatError = []"
| "readableItems dir [] = []"
| "readableItems dir ((item, node) # rest) =
     (case node of
        RegularFile (Some text) \<Rightarrow> [(joinRelative dir item, text)]
      | RegularFile None \<Rightarrow> []
      | Directory sub \<Rightarrow> readableFiles (joinRelative dir item) (Directory sub)
      | UnreadableDirectory \<Rightarrow> []
      | StatError \<Rightarrow> [])
     @ readableItems dir rest"

definition filesOnDisk :: "Host \<Rightarrow> (string \<times> string) list" where
  "filesOnDisk h = (case rootNode h of None \<Rightarrow> [] | Some root \<Rightarrow> readableFiles [] root)"

definition discovered_ok :: "ignore_filter \<Rightarrow> CodeFile \<Rightarrow> bool" where
  "discovered_ok ign f =
     (size_f f = length (content f) \<and> size_f f < 50000 \<and> ign (path f) = Inr False)"

section \<open>The shape of the assembled contexts\<close>

text \<open>One per-file block of the auto and whole modes: header, truncated content, blank line.\<close>

definition fileBlock :: "nat \<Rightarrow> nat \<Rightarrow> ScoredFile \<Rightarrow> string" where
  "fileBlock limit number file =
     ''--- File '' @ numberToString number @ '': '' @ path file @ '' ---\<newline>''
     @ truncatedContent limit (content file) @ ''\<newline>\<newline>''"

text \<open>One block of the selected mode: header and full content.\<close>

definition selectedBlock :: "ScoredFile \<Rightarrow> string" where
  "selectedBlock file =
     ''--- File: '' @ path file @ '' ---\<newline>'' @ content file @ ''\<newline>\<newline>''"

text \<open>The label and full content of the active file, and the instruction to focus on it.\<close>

definition activeFileLabel :: "Editor \<Rightarrow> string" where
  "activeFileLabel e =
     ''Currently viewing file: '' @ relativePath e @ ''\<newline>Content:\<newline>''
     @ documentText e @ ''\<newline>\<newline>''"

definition focusInstruction :: "Editor \<Rightarrow> string" where
  "focusInstruction e =
     ''User is asking about the current file ('' @ relativePath e
     @ ''). Focus primarily on this file.''"

text \<open>The active-file block that opens the auto context, when there is one.\<close>

definition activeFileBlock :: "Host \<Rightarrow> string" where
  "activeFileBlock h =
     (case activeTextEditor h of
        None \<Rightarrow> []
      | Some e \<Rightarrow> if documentText e \<noteq> [] \<and> baseName e \<noteq> [] then activeFileLabel e else [])"

text \<open>The auto mode takes its early return: a usable active file that the query refers to.\<close>

definition focusesOnCurrentFile :: "Host \<Rightarrow> string \<Rightarrow> bool" where
  "focusesOnCurrentFile h query =
     (case activeTextEditor h of
        None \<Rightarrow> False
      | Some e \<Rightarrow> documentText e \<noteq> [] \<and> baseName e \<noteq> []
                  \<and> isQueryAboutCurrentFile query (baseName e))"

text \<open>
  The ranked files of the auto mode that are appended, each with its position in the
  ranking (from 0): those whose path does not contain the active file's basename.
\<close>

definition appendedFiles :: "Host \<Rightarrow> string \<Rightarrow> (nat \<times> ScoredFile) list" where
  "appendedFiles h query =
     filter (\<lambda>(i, f). \<not> duplicatesCurrent (getCurrentFileName h) (path f))
       (enumerate 0 (getRelevantFiles h query (min (configuredMaxFiles h) 2)))"

section \<open>An example workspace\<close>

definition exampleTree :: fs_node where
  "exampleTree =
     Directory
       [(''node_modules'', Directory [(''lib.js'', RegularFile (Some ''foo foo foo''))]),
        (''a.ts'', RegularFile (Some ''foo = 1'')),
        (''notes.bin'', RegularFile (Some ''foo'')),
        (''src'', Directory [(''b.ts'', RegularFile (Some ''foo(foo)'')),
                             (''c.ts'', RegularFile (Some ''bar()''))]),
        (''locked.ts'', RegularFile None)]"

text \<open>A filter that ignores what lies under \<open>node_modules\<close>, as the built-in rule does.\<close>

definition exampleIgnoreFilter :: ignore_filter where
  "exampleIgnoreFilter p = Inr (prefix ''node_modules/'' p)"

definition exampleHost :: Host where
  "exampleHost =
     \<lparr>workspaceRoot = ''/work'', rootNode = Some exampleTree,
      ignoreFilter = exampleIgnoreFilter, regExp = rejectingEngine,
      activeTextEditor = None, maxContextFiles = Some 5\<rparr>"

definition exampleEditor :: Editor where
  "exampleEditor =
     \<lparr>baseName = ''a.ts'', relativePath = ''a.ts'', documentText = ''foo = 1''\<rparr>"

definition emptyEditor :: Editor where
  "emptyEditor = \<lparr>baseName = ''new.ts'', relativePath = ''new.ts'', documentText = []\<rparr>"

text \<open>A workspace of five small files, and the setting \<open>maxContextFiles\<close> at -1.\<close>

definition wideTree :: fs_node where
  "wideTree =
     Directory
       [(''f1.ts'', RegularFile (Some ''foo'')),
        (''f2.ts'', RegularFile (Some ''foo'')),
        (''f3.ts'', RegularFile (Some ''foo'')),
        (''f4.ts'', RegularFile (Some ''foo'')),
        (''f5.ts'', RegularFile (Some ''foo''))]"

definition wideHost :: Host where
  "wideHost =
     \<lparr>workspaceRoot = ''/wide'', rootNode = Some wideTree,
      ignoreFilter = exampleIgnoreFilter, regExp = rejectingEngine,
      activeTextEditor = None, maxContextFiles = Some (- 1)\<rparr>"

text \<open>
  A session in the selected mode: the file selector was filled from the example
  workspace, and the selection holds one of its files and a path that is gone.
\<close>

definition exampleProvider :: ChatProvider where
  "exampleProvider =
     \<lparr>contextSelection = \<lparr>mode = Selected, selectedFiles = [''src/b.ts'', ''gone.ts'']\<rparr>,
      availableFiles =
        [\<lparr>path = ''a.ts'', content = ''foo = 1'', size_f = 7, score = 2\<rparr>,
         \<lparr>path = ''src/b.ts'', content = ''foo(foo)'', size_f = 8, score = 2\<rparr>,
         \<lparr>path = ''src/c.ts'', content = ''bar()'', size_f = 5, score = 2\<rparr>]\<rparr>"

section \<open>Evaluation rules for concrete inputs\<close>

lemmas string_eval = toLowerCase_def toLowerChar_def isWhiteSpace_def char_of_def bit_0 Let_def

lemmas score_eval = calculateRelevanceScore_def queryWords_def regExpMatchCount_def
  isAtomPattern_def isQuantifiedPattern_def isLineTerminator_def isSyntaxCharacter_def
  isQuantifierChar_def toAtom_def sizeBonus_def extname_def lastComponent_def Let_def

lemmas spec_eval = spec_tokens_def spec_token_score_def spec_size_bonus_def
  isSyntaxCharacter_def extname_def lastComponent_def Let_def

lemmas context_eval = fileBlock_def truncatedContent_def numberToString.simps digitChar_def
  activeFileLabel_def focusInstruction_def

lemma exampleHost_fields:
  "workspaceRoot exampleHost = ''/work''" "rootNode exampleHost = Some exampleTree"
  "ignoreFilter exampleHost = exampleIgnoreFilter" "regExp exampleHost = rejectingEngine"
  "activeTextEditor exampleHost = None" "maxContextFiles exampleHost = Some 5"
  by (simp_all add: exampleHost_def)

lemma example_discovery:
  "getAllCodeFiles exampleHost =
     [\<lparr>path = ''a.ts'', content = ''foo = 1'', size_f = 7\<rparr>,
      \<lparr>path = ''src/b.ts'', content = ''foo(foo)'', size_f = 8\<rparr>,
      \<lparr>path = ''src/c.ts'', content = ''bar()'', size_f = 5\<rparr>]"
  by (simp add: getAllCodeFiles_def exampleHost_fields exampleTree_def exampleIgnoreFilter_def
      joinRelative_def codeExtensions_def extname_def lastComponent_def Let_def string_eval)

lemma getRelevantFiles_editor [simp]:
  "getRelevantFiles (h\<lparr>activeTextEditor := e\<rparr>) query n = getRelevantFiles h query n"
  by (simp add: getRelevantFiles_def getAllCodeFiles_def Let_def split: option.splits)

lemma getRelevantFiles_setting [simp]:
  "getRelevantFiles (h\<lparr>maxContextFiles := m\<rparr>) query n = getRelevantFiles h query n"
  by (simp add: getRelevantFiles_def getAllCodeFiles_def Let_def split: option.splits)

lemma example_ranking_foo:
  "getRelevantFiles exampleHost ''foo'' 2 =
     [\<lparr>path = ''src/b.ts'', content = ''foo(foo)'', size_f = 8, score = 4\<rparr>,
      \<lparr>path = ''a.ts'', content = ''foo = 1'', size_f = 7, score = 3\<rparr>]"
  by (simp add: getRelevantFiles_def exampleHost_fields example_discovery sortByScore_def
      slice0_def score_eval string_eval)

lemma example_ranking_empty:
  "getRelevantFiles exampleHost [] 20 =
     [\<lparr>path = ''a.ts'', content = ''foo = 1'', size_f = 7, score = 2\<rparr>,
      \<lparr>path = ''src/b.ts'', content = ''foo(foo)'', size_f = 8, score = 2\<rparr>,
      \<lparr>path = ''src/c.ts'', content = ''bar()'', size_f = 5, score = 2\<rparr>]"
  by (simp add: getRelevantFiles_def exampleHost_fields example_discovery sortByScore_def
      slice0_def score_eval string_eval)

lemma example_ranking_explain:
  "getRelevantFiles exampleHost ''explain this function'' 2 =
     [\<lparr>path = ''a.ts'', content = ''foo = 1'', size_f = 7, score = 2\<rparr>,
      \<lparr>path = ''src/b.ts'', content = ''foo(foo)'', size_f = 8, score = 2\<rparr>]"
  by (simp add: getRelevantFiles_def exampleHost_fields example_discovery sortByScore_def
      slice0_def score_eval string_eval)

lemma example_ranking_where:
  "getRelevantFiles exampleHost ''where is foo'' 2 =
     [\<lparr>path = ''src/b.ts'', content = ''foo(foo)'', size_f = 8, score = 4\<rparr>,
      \<lparr>path = ''a.ts'', content = ''foo = 1'', size_f = 7, score = 3\<rparr>]"
  by (simp add: getRelevantFiles_def exampleHost_fields example_discovery sortByScore_def
      slice0_def score_eval string_eval)

lemma wideHost_fields:
  "workspaceRoot wideHost = ''/wide''" "rootNode wideHost = Some wideTree"
  "ignoreFilter wideHost = exampleIgnoreFilter" "regExp wideHost = rejectingEngine"
  "activeTextEditor wideHost = None" "maxContextFiles wideHost = Some (- 1)"
  by (simp_all add: wideHost_def)

lemma wide_discovery:
  "getAllCodeFiles wideHost =
     [\<lparr>path = ''f1.ts'', content = ''foo'', size_f = 3\<rparr>,
      \<lparr>path = ''f2.ts'', content = ''foo'', size_f = 3\<rparr>,
      \<lparr>path = ''f3.ts'', content = ''foo'', size_f = 3\<rparr>,
      \<lparr>path = ''f4.ts'', content = ''foo'', size_f = 3\<rparr>,
      \<lparr>path = ''f5.ts'', content = ''foo'', size_f = 3\<rparr>]"
  by (simp add: getAllCodeFiles_def wideHost_fields wideTree_def exampleIgnoreFilter_def
      joinRelative_def codeExtensions_def extname_def lastComponent_def Let_def string_eval)

lemma wide_ranking_foo:
  "getRelevantFiles wideHost ''foo'' (- 1) =
     [\<lparr>path = ''f1.ts'', content = ''foo'', size_f = 3, score = 3\<rparr>,
      \<lparr>path = ''f2.ts'', content = ''foo'', size_f = 3, score = 3\<rparr>,
      \<lparr>path = ''f3.ts'', content = ''foo'', size_f = 3, score = 3\<rparr>,
      \<lparr>path = ''f4.ts'', content = ''foo'', size_f = 3, score = 3\<rparr>]"
  by (simp add: getRelevantFiles_def wideHost_fields wide_discovery sortByScore_def
      slice0_def score_eval string_eval)

text \<open>
  Beyond ASCII: \<open>toLowerCase\<close> lowers the accented capitals and leaves the multiplication
  sign and the sharp s alone, the no-break space separates the words of a query, and a
  file name with an accented capital is matched by the lower-case word.
\<close>

lemma toLowerCase_latin1:
  "toLowerCase (''CAF'' @ [CHR 0xC9] @ ''.ts'') = ''caf'' @ [CHR 0xE9] @ ''.ts''
   \<and> toLowerCase [CHR 0xD7, CHR 0xDF] = [CHR 0xD7, CHR 0xDF]"
  by (simp add: string_eval)

lemma queryWords_no_break_space:
  "queryWords (''Foo'' @ [CHR 0xA0] @ ''bar'') = [''foo'', ''bar'']"
  by (simp add: queryWords_def string_eval)

lemma score_latin1:
  "calculateRelevanceScore eng \<lparr>path = ''foo.ts'', content = [], size_f = 0\<rparr>
     (''foo'' @ [CHR 0xA0] @ ''bar'') = Inr 12
   \<and> calculateRelevanceScore eng
        \<lparr>path = ''CAF'' @ [CHR 0xC9] @ ''.ts'', content = [], size_f = 0\<rparr>
        (''caf'' @ [CHR 0xE9]) = Inr 12"
  by (simp add: score_eval string_eval)

section \<open>Relevance scoring: the formula\<close>

lemma toLowerChar_idem: "toLowerChar (toLowerChar c) = toLowerChar c"
  by (auto simp: toLowerChar_def Let_def)

lemma queryWords_spec_tokens: "queryWords q = spec_tokens q"
  by (simp add: queryWords_def spec_tokens_def not_le)

lemma scoreFilename_sum:
  "scoreFilename p ws s = s + (\<Sum>w\<leftarrow>ws. if includes_str (toLowerCase p) w then 10 else 0)"
  by (induction ws arbitrary: s) auto

lemma scoreExtension_sum:
  "scoreExtension e ws s = s + (\<Sum>w\<leftarrow>ws. if includes_str w (drop 1 e) then 5 else 0)"
  by (induction ws arbitrary: s) auto

lemma matchesAt_literal:
  "matchesAt (map PatternChar t) (toLowerCase s) = startsWithIgnoreCase s t"
  by (induction s t rule: startsWithIgnoreCase.induct)
     (auto simp: toLowerCase_def toLowerChar_idem)

lemma countMatches_literal:
  "countMatches (map PatternChar t) (toLowerCase s) = occurrences t s"
proof (induction t s rule: occurrences.induct)
  case (1 token)
  then show ?case by (simp add: toLowerCase_def)
next
  case (2 token c s)
  have m: "matchesAt (map PatternChar token) (toLowerChar c # toLowerCase s)
           = startsWithIgnoreCase (c # s) token"
    using matchesAt_literal [of token "c # s"] by (simp add: toLowerCase_def)
  have d: "drop (length token - 1) (toLowerCase s) = toLowerCase (drop (length token - 1) s)"
    by (simp add: toLowerCase_def drop_map)
  show ?case
    using 2 m d by (simp add: toLowerCase_def)
qed

lemma plain_word_atoms:
  "list_all (\<lambda>c. \<not> isSyntaxCharacter c) w \<Longrightarrow> map toAtom w = map PatternChar w"
  by (induction w) (auto simp: toAtom_def isSyntaxCharacter_def)

lemma plain_word_isAtomPattern:
  "list_all (\<lambda>c. \<not> isSyntaxCharacter c) w \<Longrightarrow> isAtomPattern w"
  by (induction w) (auto simp: isAtomPattern_def)

lemma regExpMatchCount_plain:
  "list_all (\<lambda>c. \<not> isSyntaxCharacter c) w \<Longrightarrow>
   regExpMatchCount eng w (toLowerCase s) = Inr (occurrences w s)"
  by (simp add: regExpMatchCount_def plain_word_isAtomPattern plain_word_atoms
      countMatches_literal)

lemma scoreContent_plain:
  "list_all (\<lambda>w. list_all (\<lambda>c. \<not> isSyntaxCharacter c) w) ws \<Longrightarrow>
   scoreContent eng (toLowerCase s) ws k = Inr (k + (\<Sum>w\<leftarrow>ws. min (occurrences w s) 5))"
  by (induction ws arbitrary: k) (auto simp: regExpMatchCount_plain)

lemma sizeBonus_spec: "sizeBonus sz k = k + spec_size_bonus sz"
  by (simp add: sizeBonus_def spec_size_bonus_def)

text \<open>
  C1 (as amended). For every file and every query whose tokens contain no regular
  expression syntax character, \<open>calculateRelevanceScore\<close> returns the sum over the
  query's tokens (query lowercased, split on white space, tokens of length at most 2
  discarded) of: 10 if the lowercased path contains the token, 5 if the token contains the
  file's lowercased extension without its dot, and the number of case-insensitive
  occurrences of the token in the content (counted without overlap), capped at 5; plus the
  size bonus 2 below 1000, 1 below 5000, 0 otherwise; nothing is normalised.
\<close>

theorem calculateRelevanceScore_formula:
  "noSyntaxCharacters query \<Longrightarrow>
   calculateRelevanceScore eng file query = Inr (spec_score_lower file query)"
  unfolding calculateRelevanceScore_def spec_score_lower_def spec_token_score_def
    noSyntaxCharacters_def Let_def
  by (simp add: queryWords_spec_tokens scoreFilename_sum scoreExtension_sum scoreContent_plain
      sizeBonus_spec sum_list_addf drop_map toLowerCase_def [symmetric])

text \<open>
  The specification's example: query \<open>parse json config\<close>, file \<open>config/parser.ts\<close> with
  three occurrences of \<open>json\<close>.
\<close>

theorem calculateRelevanceScore_formula_witness:
  "noSyntaxCharacters ''parse json config''
   \<and> calculateRelevanceScore rejectingEngine
        \<lparr>path = ''config/parser.ts'', content = ''json JSON json'', size_f = 14\<rparr>
        ''parse json config'' = Inr 25"
proof -
  have tokens: "spec_tokens ''parse json config'' = [''parse'', ''json'', ''config'']"
    by (simp add: spec_tokens_def string_eval)
  have plain: "noSyntaxCharacters ''parse json config''"
    by (simp add: noSyntaxCharacters_def tokens isSyntaxCharacter_def)
  have t1: "spec_token_score ''config/parser.ts'' ''ts'' ''json JSON json'' ''parse'' = 10"
    by (simp add: spec_token_score_def string_eval)
  have t2: "spec_token_score ''config/parser.ts'' ''ts'' ''json JSON json'' ''json'' = 3"
    by (simp add: spec_token_score_def string_eval)
  have t3: "spec_token_score ''config/parser.ts'' ''ts'' ''json JSON json'' ''config'' = 10"
    by (simp add: spec_token_score_def string_eval)
  have "spec_score_lower
          \<lparr>path = ''config/parser.ts'', content = ''json JSON json'', size_f = 14\<rparr>
          ''parse json config'' = 25"
    by (simp add: spec_score_lower_def tokens t1 t2 t3 spec_size_bonus_def extname_def
        lastComponent_def string_eval Let_def)
  then show ?thesis
    using plain calculateRelevanceScore_formula [OF plain, of rejectingEngine
        "\<lparr>path = ''config/parser.ts'', content = ''json JSON json'', size_f = 14\<rparr>"]
    by simp
qed

text \<open>
  The claim as stated fails twice. The word \<open>a.c\<close> does not occur in \<open>abc\<close>, but as a
  pattern it matches there, so the code adds 1 for the content. The extension of
  \<open>Main.TS\<close> is \<open>.TS\<close>, which the token \<open>tsx\<close> does not contain, but the code lowercases
  the extension and adds 5.
\<close>

theorem calculateRelevanceScore_formula_counterexample:
  "calculateRelevanceScore rejectingEngine
     \<lparr>path = ''a.ts'', content = ''abc'', size_f = 3\<rparr> ''a.c'' = Inr 3
   \<and> spec_score \<lparr>path = ''a.ts'', content = ''abc'', size_f = 3\<rparr> ''a.c'' = 2
   \<and> calculateRelevanceScore rejectingEngine
       \<lparr>path = ''Main.TS'', content = [], size_f = 0\<rparr> ''tsx'' = Inr 7
   \<and> spec_score \<lparr>path = ''Main.TS'', content = [], size_f = 0\<rparr> ''tsx'' = 2"
  by (simp add: score_eval spec_score_def spec_eval string_eval)

section \<open>Relevance scoring: totality\<close>

text \<open>
  C2. Scoring is meant to be total, but the query word goes into \<open>new RegExp\<close>
  unescaped: for the query \<open>fix my c++ code\<close> the word \<open>c++\<close> is not a pattern, the
  constructor throws SyntaxError, and \<open>calculateRelevanceScore\<close> throws with it,
  whatever the file and whatever the engine does on other patterns.
\<close>

theorem calculateRelevanceScore_throws:
  "calculateRelevanceScore eng file ''fix my c++ code'' = Inl SyntaxError"
  by (simp add: calculateRelevanceScore_def queryWords_def regExpMatchCount_def
      isAtomPattern_def isQuantifiedPattern_def isSyntaxCharacter_def isQuantifierChar_def
      string_eval Let_def)

text \<open>
  The same at a file of the example workspace.
\<close>

theorem calculateRelevanceScore_throws_witness:
  "calculateRelevanceScore rejectingEngine
     \<lparr>path = ''a.ts'', content = ''foo = 1'', size_f = 7\<rparr> ''fix my c++ code''
   = Inl SyntaxError"
  by (rule calculateRelevanceScore_throws)

section \<open>File discovery: the invariant\<close>

lemma search_invariant:
  "list_all (discovered_ok ign) files \<Longrightarrow>
   list_all (discovered_ok ign) (searchFiles ign dir node files)"
  "list_all (discovered_ok ign) files \<Longrightarrow>
   list_all (discovered_ok ign) (searchItems ign dir items files)"
proof (induction ign dir node files and ign dir items files rule: searchFiles_searchItems.induct)
  case (6 ign dir item node rest files)
  show ?case
  proof (cases "ign (joinRelative dir item)")
    case (Inl e)
    then show ?thesis using 6 by simp
  next
    case (Inr b)
    show ?thesis
    proof (cases b)
      case True
      then show ?thesis using 6 Inr by simp
    next
      case False
      then show ?thesis using 6 Inr
        by (cases node) (auto simp: discovered_ok_def split: option.splits)
    qed
  qed
qed simp_all

lemma search_reads:
  "list_all (\<lambda>f. (path f, content f) \<in> A) files \<Longrightarrow> set (readableFiles dir node) \<subseteq> A \<Longrightarrow>
   list_all (\<lambda>f. (path f, content f) \<in> A) (searchFiles ign dir node files)"
  "list_all (\<lambda>f. (path f, content f) \<in> A) files \<Longrightarrow> set (readableItems dir items) \<subseteq> A \<Longrightarrow>
   list_all (\<lambda>f. (path f, content f) \<in> A) (searchItems ign dir items files)"
proof (induction ign dir node files and ign dir items files rule: searchFiles_searchItems.induct)
  case (6 ign dir item node rest files)
  show ?case
  proof (cases "ign (joinRelative dir item)")
    case (Inl e)
    then show ?thesis using 6 by simp
  next
    case (Inr b)
    show ?thesis
    proof (cases b)
      case True
      then show ?thesis using 6 Inr by simp
    next
      case False
      then show ?thesis using 6 Inr
        by (cases node) (auto split: option.splits)
    qed
  qed
qed simp_all

text \<open>
  C6. Every file that a discovery pass produces is a readable file of the workspace under
  its workspace-relative path, and its content is that file's whole text: nothing is cut at
  discovery. Its \<open>size\<close> is the length of its content and is below 50000, so a file whose
  text has 50000 characters or more is not produced at all. The ignore filter answers
  "not ignored" for its path.
\<close>

theorem discovery_invariant:
  "\<forall>f \<in> set (getAllCodeFiles h).
     (path f, content f) \<in> set (filesOnDisk h)
     \<and> size_f f = length (content f) \<and> size_f f < 50000
     \<and> ignoreFilter h (path f) = Inr False"
proof -
  have ok: "list_all (discovered_ok (ignoreFilter h)) (getAllCodeFiles h)"
    by (auto simp: getAllCodeFiles_def search_invariant split: option.splits)
  have "list_all (\<lambda>f. (path f, content f) \<in> set (filesOnDisk h)) (getAllCodeFiles h)"
    by (auto simp: getAllCodeFiles_def filesOnDisk_def search_reads split: option.splits)
  then show ?thesis
    using ok by (auto simp: list_all_iff discovered_ok_def)
qed

text \<open>
  In the example workspace \<open>src/b.ts\<close> is discovered with the text it has on disk, and
  what lies under \<open>node_modules\<close> is ignored.
\<close>

theorem discovery_invariant_witness:
  "\<lparr>path = ''src/b.ts'', content = ''foo(foo)'', size_f = 8\<rparr> \<in> set (getAllCodeFiles exampleHost)
   \<and> (''src/b.ts'', ''foo(foo)'') \<in> set (filesOnDisk exampleHost)
   \<and> length ''foo(foo)'' = 8
   \<and> ignoreFilter exampleHost ''src/b.ts'' = Inr False
   \<and> ignoreFilter exampleHost ''node_modules/lib.js'' = Inr True"
proof -
  have mem: "\<lparr>path = ''src/b.ts'', content = ''foo(foo)'', size_f = 8\<rparr>
             \<in> set (getAllCodeFiles exampleHost)"
    by (simp add: example_discovery)
  have "ignoreFilter exampleHost ''node_modules/lib.js'' = Inr True"
    by (simp add: exampleHost_fields exampleIgnoreFilter_def)
  then show ?thesis
    using mem discovery_invariant [of exampleHost] by fastforce
qed

section \<open>Ranking: order and stability\<close>

lemma scoreFiles_discovered:
  "scoreFiles eng query files = Inr scored \<Longrightarrow>
   list_all2 (\<lambda>s f. path s = path f \<and> content s = content f \<and> size_f s = size_f f
                    \<and> calculateRelevanceScore eng f query = Inr (score s)) scored files"
proof (induction files arbitrary: scored)
  case Nil
  then show ?case by simp
next
  case (Cons f files)
  then show ?case by (auto split: sum.splits)
qed



lemma slice0_split: "\<exists>rest. xs = slice0 xs n @ rest"
  by (metis append_take_drop_id slice0_def)

lemma slice0_length: "0 \<le> n \<Longrightarrow> length (slice0 xs n) \<le> nat n"
  by (simp add: slice0_def)

lemma set_slice0: "set (slice0 xs n) \<subseteq> set xs"
  by (auto simp: slice0_def dest: in_set_takeD)

lemma getRelevantFiles_length: "0 \<le> n \<Longrightarrow> length (getRelevantFiles h query n) \<le> nat n"
  by (simp add: getRelevantFiles_def Let_def slice0_length split: sum.splits)

lemma getAllCodeFiles_no_root: "workspaceRoot h = [] \<Longrightarrow> getAllCodeFiles h = []"
  by (simp add: getAllCodeFiles_def split: option.splits)


lemma getRelevantFiles_ranked:
  "scoreFiles (regExp h) query (getAllCodeFiles h) = Inr scored \<Longrightarrow>
   getRelevantFiles h query maxFiles = slice0 (sortByScore scored) maxFiles"
proof (cases "getAllCodeFiles h = []")
  case True
  assume "scoreFiles (regExp h) query (getAllCodeFiles h) = Inr scored"
  then have "scored = []"
    using True by simp
  then show ?thesis
    using True by (simp add: getRelevantFiles_def sortByScore_def slice0_def)
next
  case False
  assume sc: "scoreFiles (regExp h) query (getAllCodeFiles h) = Inr scored"
  have "workspaceRoot h \<noteq> []"
    using False getAllCodeFiles_no_root by blast
  then show ?thesis
    using False sc by (simp add: getRelevantFiles_def)
qed

lemma slice0_take:
  "slice0 xs n = (if n < 0 then take (length xs - nat (- n)) xs else take (nat n) xs)"
proof -
  have "nat (int (length xs) + n) = length xs - nat (- n)" if "n < 0"
    using that by linarith
  then show ?thesis
    by (simp add: slice0_def)
qed

lemma sortByScore_length: "length (sortByScore xs) = length xs"
  by (simp add: sortByScore_def)



section \<open>Whole mode\<close>

lemma appendWhole_blocks:
  "appendWhole files i context
   = context @ concat (map (\<lambda>(j, f). fileBlock 1500 (Suc j) f) (enumerate i files))"
  by (induction files arbitrary: i "context") (simp_all add: fileBlock_def)

lemma truncatedContent_length:
  "length (truncatedContent n s) \<le> n + length ''\<newline>... (truncated)''"
  by (simp add: truncatedContent_def)

lemma queryWords_empty: "queryWords [] = []"
  by (simp add: queryWords_def toLowerCase_def)

lemma score_empty_query: "calculateRelevanceScore eng f [] = Inr (spec_size_bonus (size_f f))"
  by (simp add: calculateRelevanceScore_def queryWords_empty sizeBonus_def spec_size_bonus_def)

lemma scoreFiles_empty_query:
  "\<exists>scored. scoreFiles eng [] files = Inr scored
     \<and> list_all (\<lambda>f. score f = spec_size_bonus (size_f f)) scored"
  by (induction files) (auto simp: score_empty_query)

lemma getRelevantFiles_empty_query:
  "list_all (\<lambda>f. score f = spec_size_bonus (size_f f)) (getRelevantFiles h [] n)"
proof -
  obtain scored where s: "scoreFiles (regExp h) [] (getAllCodeFiles h) = Inr scored"
    and a: "list_all (\<lambda>f. score f = spec_size_bonus (size_f f)) scored"
    using scoreFiles_empty_query by blast
  have "set (slice0 (sortByScore scored) n) \<subseteq> set scored"
    using set_slice0 [of "sortByScore scored" n] by (simp add: sortByScore_def)
  then show ?thesis
    using s a by (auto simp: getRelevantFiles_def Let_def list_all_iff)
qed

text \<open>
  C5. In whole mode the context is the header followed by one block per file of the
  ranking for the empty query (where a file's score is its size bonus alone); there are
  at most 20 blocks, and the content of each block is the file's content when that has
  at most 1500 characters, else its first 1500 characters and the truncation marker.
\<close>

theorem whole_codebase_bounded:
  "buildWholeCodebaseContext h
     = ''Entire codebase ('' @ numberToString (length (getRelevantFiles h [] 20))
       @ '' files):\<newline>\<newline>''
       @ concat (map (\<lambda>(j, f). fileBlock 1500 (Suc j) f) (enumerate 0 (getRelevantFiles h [] 20)))
   \<and> length (getRelevantFiles h [] 20) \<le> 20
   \<and> (\<forall>f \<in> set (getRelevantFiles h [] 20).
        score f = spec_size_bonus (size_f f)
        \<and> length (truncatedContent 1500 (content f)) \<le> 1500 + length ''\<newline>... (truncated)''
        \<and> (if length (content f) > 1500
            then truncatedContent 1500 (content f)
                 = take 1500 (content f) @ ''\<newline>... (truncated)''
            else truncatedContent 1500 (content f) = content f))"
proof (intro conjI ballI)
  show "buildWholeCodebaseContext h
     = ''Entire codebase ('' @ numberToString (length (getRelevantFiles h [] 20))
       @ '' files):\<newline>\<newline>''
       @ concat (map (\<lambda>(j, f). fileBlock 1500 (Suc j) f) (enumerate 0 (getRelevantFiles h [] 20)))"
    by (simp add: buildWholeCodebaseContext_def Let_def appendWhole_blocks)
  show "length (getRelevantFiles h [] 20) \<le> 20"
    using getRelevantFiles_length [of 20 h "[]"] by simp
  fix f assume f: "f \<in> set (getRelevantFiles h [] 20)"
  show "score f = spec_size_bonus (size_f f)"
    using f getRelevantFiles_empty_query [of h 20] by (simp add: list_all_iff)
  show "length (truncatedContent 1500 (content f)) \<le> 1500 + length ''\<newline>... (truncated)''"
    by (rule truncatedContent_length)
  show "if length (content f) > 1500
        then truncatedContent 1500 (content f) = take 1500 (content f) @ ''\<newline>... (truncated)''
        else truncatedContent 1500 (content f) = content f"
    by (simp add: truncatedContent_def)
qed

text \<open>The whole-mode context of the example workspace.\<close>

theorem whole_codebase_bounded_witness:
  "length (getRelevantFiles exampleHost [] 20) = 3
   \<and> buildWholeCodebaseContext exampleHost
       = ''Entire codebase (3 files):\<newline>\<newline>--- File 1: a.ts ---\<newline>foo = 1\<newline>\<newline>--- File 2: src/b.ts ---\<newline>foo(foo)\<newline>\<newline>--- File 3: src/c.ts ---\<newline>bar()\<newline>\<newline>''"
  using whole_codebase_bounded [of exampleHost, THEN conjunct1]
  by (simp add: example_ranking_empty context_eval)

section \<open>Auto mode\<close>

lemma appendRelevant_blocks:
  "appendRelevant name files i context
   = context @ concat (map (\<lambda>(j, f). fileBlock 2000 (Suc j) f)
       (filter (\<lambda>(j, f). \<not> duplicatesCurrent name (path f)) (enumerate i files)))"
  by (induction files arbitrary: i "context") (simp_all add: fileBlock_def)

lemma duplicatesCurrent_iff:
  "duplicatesCurrent name p \<longleftrightarrow> (\<exists>n. name = Some n \<and> n \<noteq> [] \<and> includes_str p n)"
  by (simp add: duplicatesCurrent_def split: option.splits)

lemma configuredMaxFiles_negative:
  "maxContextFiles h = Some n \<Longrightarrow> n < 0 \<Longrightarrow> min (configuredMaxFiles h) 2 = n"
  by (simp add: configuredMaxFiles_def)

lemma configuredMaxFiles_default:
  "maxContextFiles h = None \<or> maxContextFiles h = Some 0 \<Longrightarrow> min (configuredMaxFiles h) 2 = 2"
  by (auto simp: configuredMaxFiles_def)

lemma configuredMaxFiles_positive:
  "maxContextFiles h = Some n \<Longrightarrow> 1 \<le> n \<Longrightarrow> min (configuredMaxFiles h) 2 = min n 2"
  by (simp add: configuredMaxFiles_def)

lemma scoreFiles_length:
  "scoreFiles eng query files = Inr scored \<Longrightarrow> length scored = length files"
  using scoreFiles_discovered [of eng query files scored] by (simp add: list_all2_lengthD)

lemma buildAutoContext_broad:
  "\<not> focusesOnCurrentFile h query \<Longrightarrow>
   buildAutoContext h query = addRelevantFiles h query (activeFileBlock h)"
  by (auto simp: buildAutoContext_def focusesOnCurrentFile_def activeFileBlock_def
      getCurrentFileContent_def getCurrentFileName_def relativePathOr_def activeFileLabel_def
      Let_def split: option.splits)

text \<open>
  C3 (as amended). In auto mode, if an active file with non-empty content is open and the
  query contains, case-insensitively, the file's basename, or "this file", or "current
  file", or one of the fixed referential phrasings, the context is the active file's
  label and full content followed by the instruction to focus on it, and nothing else,
  whatever the workspace holds; the query "explain this function" takes this path.
\<close>

theorem auto_focus_on_current_file:
  assumes "activeTextEditor h = Some e"
    and "documentText e \<noteq> []" and "baseName e \<noteq> []"
  shows "(includes_str (toLowerCase query) (toLowerCase (baseName e))
          \<or> includes_str (toLowerCase query) ''this file''
          \<or> includes_str (toLowerCase query) ''current file''
          \<or> list_ex (includes_str (toLowerCase query)) currentFileIndicators
          \<longrightarrow> buildAutoContext h query = activeFileLabel e @ focusInstruction e)
         \<and> buildAutoContext h ''explain this function'' = activeFileLabel e @ focusInstruction e"
proof -
  have focus: "buildAutoContext h q = activeFileLabel e @ focusInstruction e"
    if "isQueryAboutCurrentFile q (baseName e)" for q
    using assms that
    by (simp add: buildAutoContext_def getCurrentFileContent_def getCurrentFileName_def
        relativePathOr_def activeFileLabel_def focusInstruction_def Let_def)
  have "includes_str (toLowerCase ''explain this function'') ''explain this''"
    by (simp add: string_eval)
  then have "isQueryAboutCurrentFile ''explain this function'' (baseName e)"
    by (simp add: isQueryAboutCurrentFile_def Let_def currentFileIndicators_def)
  then show ?thesis
    using focus by (auto simp: isQueryAboutCurrentFile_def Let_def)
qed

text \<open>
  With \<open>a.ts\<close> open in the example workspace, a query that names the file gets the
  active file and the instruction only.
\<close>

theorem auto_focus_on_current_file_witness:
  "activeTextEditor (exampleHost\<lparr>activeTextEditor := Some exampleEditor\<rparr>) = Some exampleEditor
   \<and> includes_str (toLowerCase ''What does A.ts export'') (toLowerCase (baseName exampleEditor))
   \<and> buildAutoContext (exampleHost\<lparr>activeTextEditor := Some exampleEditor\<rparr>)
         ''What does A.ts export''
       = ''Currently viewing file: a.ts\<newline>Content:\<newline>foo = 1\<newline>\<newline>User is asking about the current file (a.ts). Focus primarily on this file.''"
proof -
  have ref: "includes_str (toLowerCase ''What does A.ts export'')
               (toLowerCase (baseName exampleEditor))"
    by (simp add: exampleEditor_def string_eval)
  have ed: "activeTextEditor (exampleHost\<lparr>activeTextEditor := Some exampleEditor\<rparr>)
            = Some exampleEditor"
    by simp
  have "documentText exampleEditor \<noteq> []" and "baseName exampleEditor \<noteq> []"
    by (simp_all add: exampleEditor_def)
  then show ?thesis
    using ref ed
      auto_focus_on_current_file [OF ed, of "''What does A.ts export''", THEN conjunct1]
    by (simp add: exampleEditor_def context_eval)
qed

text \<open>
  The claim as stated fails for an open file that is empty: the editor is there and
  the query is "explain this function", but the empty content counts as no file, the
  early return is not taken, and two files of the workspace are appended instead.
\<close>

theorem auto_focus_on_current_file_counterexample:
  "activeTextEditor (exampleHost\<lparr>activeTextEditor := Some emptyEditor\<rparr>) = Some emptyEditor
   \<and> isQueryAboutCurrentFile ''explain this function'' (baseName emptyEditor)
   \<and> buildAutoContext (exampleHost\<lparr>activeTextEditor := Some emptyEditor\<rparr>)
         ''explain this function''
       = ''Additional relevant files:\<newline>\<newline>--- File 1: a.ts ---\<newline>foo = 1\<newline>\<newline>--- File 2: src/b.ts ---\<newline>foo(foo)\<newline>\<newline>''
   \<and> buildAutoContext (exampleHost\<lparr>activeTextEditor := Some emptyEditor\<rparr>)
         ''explain this function''
       \<noteq> activeFileLabel emptyEditor @ focusInstruction emptyEditor"
proof -
  have q: "isQueryAboutCurrentFile ''explain this function'' (baseName emptyEditor)"
    by (simp add: isQueryAboutCurrentFile_def currentFileIndicators_def emptyEditor_def
        Let_def string_eval)
  have c: "buildAutoContext (exampleHost\<lparr>activeTextEditor := Some emptyEditor\<rparr>)
         ''explain this function''
       = ''Additional relevant files:\<newline>\<newline>--- File 1: a.ts ---\<newline>foo = 1\<newline>\<newline>--- File 2: src/b.ts ---\<newline>foo(foo)\<newline>\<newline>''"
    by (simp add: buildAutoContext_def getCurrentFileContent_def getCurrentFileName_def
        emptyEditor_def addRelevantFiles_def configuredMaxFiles_def exampleHost_fields
        example_ranking_explain duplicatesCurrent_def truncatedContent_def
        numberToString.simps digitChar_def Let_def)
  show ?thesis
    using q c by (simp add: activeFileLabel_def)
qed

text \<open>
  C4. In auto mode, when the early return is not taken, the context is the optional
  active-file block followed, when the ranking is not empty, by the heading and one block
  per appended file. The appended files are the files of the ranking
  \<open>getRelevantFiles(query, Math.min(maxFiles, 2))\<close> whose path does not contain the
  (non-empty) basename of the active file, and each block holds the file's content
  when that has at most 2000 characters, else its first 2000 characters and the truncation
  marker. At most min(maxContextFiles, 2) files are appended when the setting is at
  least 1. For the other settings the bound is not kept: an unset setting and the setting 0
  count as 3, so the ranking is cut at 2; and a negative setting \<open>n\<close> reaches
  \<open>slice(0, n)\<close>, which keeps all the scored files but the last \<open>-n\<close>, so that with no
  active file the number of appended files is the number of discovered files less \<open>-n\<close>,
  however large.
\<close>

theorem auto_appends_relevant_files:
  assumes "\<not> focusesOnCurrentFile h query"
  shows "buildAutoContext h query
           = activeFileBlock h
             @ (if getRelevantFiles h query (min (configuredMaxFiles h) 2) = [] then []
                else ''Additional relevant files:\<newline>\<newline>''
                     @ concat (map (\<lambda>(j, f). fileBlock 2000 (Suc j) f) (appendedFiles h query)))
         \<and> appendedFiles h query
             = filter (\<lambda>(j, f). \<not> (\<exists>n. getCurrentFileName h = Some n \<and> n \<noteq> []
                                          \<and> includes_str (path f) n))
                 (enumerate 0 (getRelevantFiles h query (min (configuredMaxFiles h) 2)))
         \<and> (\<forall>n. maxContextFiles h = Some n \<and> 1 \<le> n \<longrightarrow>
               length (appendedFiles h query) \<le> nat (min n 2))
         \<and> (maxContextFiles h = None \<or> maxContextFiles h = Some 0 \<longrightarrow>
               getRelevantFiles h query (min (configuredMaxFiles h) 2)
                 = getRelevantFiles h query 2
               \<and> length (appendedFiles h query) \<le> 2)
         \<and> (\<forall>n scored. maxContextFiles h = Some n \<and> n < 0
                \<and> scoreFiles (regExp h) query (getAllCodeFiles h) = Inr scored \<longrightarrow>
               getRelevantFiles h query (min (configuredMaxFiles h) 2)
                 = take (length (getAllCodeFiles h) - nat (- n)) (sortByScore scored)
               \<and> (activeTextEditor h = None \<longrightarrow>
                    length (appendedFiles h query) = length (getAllCodeFiles h) - nat (- n)))
         \<and> (\<forall>(j, f) \<in> set (appendedFiles h query).
               if length (content f) > 2000
               then truncatedContent 2000 (content f)
                    = take 2000 (content f) @ ''\<newline>... (truncated)''
               else truncatedContent 2000 (content f) = content f)"
proof -
  let ?rel = "getRelevantFiles h query (min (configuredMaxFiles h) 2)"
  have len: "length (appendedFiles h query) \<le> length ?rel"
    unfolding appendedFiles_def
    by (rule order_trans [OF length_filter_le]) simp
  have shape: "buildAutoContext h query
     = activeFileBlock h
       @ (if ?rel = [] then []
          else ''Additional relevant files:\<newline>\<newline>''
               @ concat (map (\<lambda>(j, f). fileBlock 2000 (Suc j) f) (appendedFiles h query)))"
    using assms
    by (simp add: buildAutoContext_broad addRelevantFiles_def Let_def appendRelevant_blocks
        appendedFiles_def)
  have skip: "appendedFiles h query
             = filter (\<lambda>(j, f). \<not> (\<exists>n. getCurrentFileName h = Some n \<and> n \<noteq> []
                                          \<and> includes_str (path f) n))
                 (enumerate 0 ?rel)"
    by (simp add: appendedFiles_def duplicatesCurrent_iff)
  have cap: "\<forall>n. maxContextFiles h = Some n \<and> 1 \<le> n \<longrightarrow>
               length (appendedFiles h query) \<le> nat (min n 2)"
  proof (intro allI impI)
    fix n assume n: "maxContextFiles h = Some n \<and> 1 \<le> n"
    then have "min (configuredMaxFiles h) 2 = min n 2"
      by (simp add: configuredMaxFiles_positive)
    moreover have "0 \<le> min n 2"
      using n by simp
    ultimately have "length ?rel \<le> nat (min n 2)"
      using getRelevantFiles_length [of "min n 2" h query] by simp
    then show "length (appendedFiles h query) \<le> nat (min n 2)"
      using len by simp
  qed
  have dflt: "maxContextFiles h = None \<or> maxContextFiles h = Some 0 \<longrightarrow>
               ?rel = getRelevantFiles h query 2 \<and> length (appendedFiles h query) \<le> 2"
  proof
    assume "maxContextFiles h = None \<or> maxContextFiles h = Some 0"
    then have two: "min (configuredMaxFiles h) 2 = 2"
      by (rule configuredMaxFiles_default)
    then have "length ?rel \<le> 2"
      using getRelevantFiles_length [of 2 h query] by simp
    then show "?rel = getRelevantFiles h query 2 \<and> length (appendedFiles h query) \<le> 2"
      using len two by simp
  qed
  have neg: "\<forall>n scored. maxContextFiles h = Some n \<and> n < 0
                \<and> scoreFiles (regExp h) query (getAllCodeFiles h) = Inr scored \<longrightarrow>
               ?rel = take (length (getAllCodeFiles h) - nat (- n)) (sortByScore scored)
               \<and> (activeTextEditor h = None \<longrightarrow>
                    length (appendedFiles h query) = length (getAllCodeFiles h) - nat (- n))"
  proof (intro allI impI)
    fix n scored
    assume a: "maxContextFiles h = Some n \<and> n < 0
                \<and> scoreFiles (regExp h) query (getAllCodeFiles h) = Inr scored"
    then have m: "min (configuredMaxFiles h) 2 = n"
      by (simp add: configuredMaxFiles_negative)
    have sc: "scoreFiles (regExp h) query (getAllCodeFiles h) = Inr scored"
      using a by simp
    have l: "length scored = length (getAllCodeFiles h)"
      using sc by (rule scoreFiles_length)
    have "getRelevantFiles h query n = slice0 (sortByScore scored) n"
      using sc by (rule getRelevantFiles_ranked)
    then have r: "?rel = take (length (getAllCodeFiles h) - nat (- n)) (sortByScore scored)"
      using a m l by (simp add: slice0_take sortByScore_length)
    have "length (appendedFiles h query) = length (getAllCodeFiles h) - nat (- n)"
      if "activeTextEditor h = None"
    proof -
      have "appendedFiles h query = enumerate 0 ?rel"
        using that by (simp add: appendedFiles_def getCurrentFileName_def duplicatesCurrent_def)
      then show ?thesis
        using r l by (simp add: sortByScore_length)
    qed
    then show "?rel = take (length (getAllCodeFiles h) - nat (- n)) (sortByScore scored)
               \<and> (activeTextEditor h = None \<longrightarrow>
                    length (appendedFiles h query) = length (getAllCodeFiles h) - nat (- n))"
      using r by blast
  qed
  have each: "\<forall>(j, f) \<in> set (appendedFiles h query).
           if length (content f) > 2000
           then truncatedContent 2000 (content f)
                = take 2000 (content f) @ ''\<newline>... (truncated)''
           else truncatedContent 2000 (content f) = content f"
    by (auto simp: truncatedContent_def)
  show ?thesis
    by (intro conjI) (rule shape, rule skip, rule cap, rule dflt, rule neg, rule each)
qed

text \<open>
  With \<open>a.ts\<close> open, the query \<open>where is foo\<close> ranks \<open>src/b.ts\<close> and \<open>a.ts\<close>; the
  second is the active file and is skipped. In a workspace of five files with the setting
  at -1 and no active file, the query \<open>foo\<close> appends four files, more than the bound
  min(-1, 2) and more than 2.
\<close>

theorem auto_appends_relevant_files_witness:
  "\<not> focusesOnCurrentFile (exampleHost\<lparr>activeTextEditor := Some exampleEditor\<rparr>) ''where is foo''
   \<and> appendedFiles (exampleHost\<lparr>activeTextEditor := Some exampleEditor\<rparr>) ''where is foo''
       = [(0, \<lparr>path = ''src/b.ts'', content = ''foo(foo)'', size_f = 8, score = 4\<rparr>)]
   \<and> buildAutoContext (exampleHost\<lparr>activeTextEditor := Some exampleEditor\<rparr>) ''where is foo''
       = ''Currently viewing file: a.ts\<newline>Content:\<newline>foo = 1\<newline>\<newline>Additional relevant files:\<newline>\<newline>--- File 1: src/b.ts ---\<newline>foo(foo)\<newline>\<newline>''
   \<and> maxContextFiles wideHost = Some (- 1)
   \<and> \<not> focusesOnCurrentFile wideHost ''foo''
   \<and> length (getAllCodeFiles wideHost) = 5
   \<and> map (\<lambda>(j, f). path f) (appendedFiles wideHost ''foo'')
       = [''f1.ts'', ''f2.ts'', ''f3.ts'', ''f4.ts'']
   \<and> \<not> int (length (appendedFiles wideHost ''foo'')) \<le> min (- 1) 2
   \<and> \<not> length (appendedFiles wideHost ''foo'') \<le> 2
   \<and> buildAutoContext wideHost ''foo''
       = ''Additional relevant files:\<newline>\<newline>--- File 1: f1.ts ---\<newline>foo\<newline>\<newline>--- File 2: f2.ts ---\<newline>foo\<newline>\<newline>--- File 3: f3.ts ---\<newline>foo\<newline>\<newline>--- File 4: f4.ts ---\<newline>foo\<newline>\<newline>''"
proof -
  let ?h = "exampleHost\<lparr>activeTextEditor := Some exampleEditor\<rparr>"
  have broad: "\<not> focusesOnCurrentFile ?h ''where is foo''"
    by (simp add: focusesOnCurrentFile_def isQueryAboutCurrentFile_def currentFileIndicators_def
        exampleEditor_def Let_def string_eval)
  have app: "appendedFiles ?h ''where is foo''
       = [(0, \<lparr>path = ''src/b.ts'', content = ''foo(foo)'', size_f = 8, score = 4\<rparr>)]"
    by (simp add: appendedFiles_def configuredMaxFiles_def exampleHost_fields
        example_ranking_where getCurrentFileName_def exampleEditor_def duplicatesCurrent_def)
  have rel: "getRelevantFiles ?h ''where is foo'' (min (configuredMaxFiles ?h) 2) \<noteq> []"
    by (simp add: configuredMaxFiles_def exampleHost_fields example_ranking_where)
  have skipped: "buildAutoContext ?h ''where is foo''
       = ''Currently viewing file: a.ts\<newline>Content:\<newline>foo = 1\<newline>\<newline>Additional relevant files:\<newline>\<newline>--- File 1: src/b.ts ---\<newline>foo(foo)\<newline>\<newline>''"
    using app rel auto_appends_relevant_files [OF broad, THEN conjunct1]
    by (simp add: activeFileBlock_def exampleEditor_def context_eval)
  have setting: "maxContextFiles wideHost = Some (- 1)"
    by (simp add: wideHost_fields)
  have wide: "\<not> focusesOnCurrentFile wideHost ''foo''"
    by (simp add: focusesOnCurrentFile_def wideHost_fields)
  have five: "length (getAllCodeFiles wideHost) = 5"
    by (simp add: wide_discovery)
  have m: "min (configuredMaxFiles wideHost) 2 = - 1"
    by (simp add: configuredMaxFiles_def wideHost_fields)
  have app4: "appendedFiles wideHost ''foo''
       = [(0, \<lparr>path = ''f1.ts'', content = ''foo'', size_f = 3, score = 3\<rparr>),
          (1, \<lparr>path = ''f2.ts'', content = ''foo'', size_f = 3, score = 3\<rparr>),
          (2, \<lparr>path = ''f3.ts'', content = ''foo'', size_f = 3, score = 3\<rparr>),
          (3, \<lparr>path = ''f4.ts'', content = ''foo'', size_f = 3, score = 3\<rparr>)]"
    by (simp add: appendedFiles_def m wide_ranking_foo getCurrentFileName_def wideHost_fields
        duplicatesCurrent_def)
  have rel4: "getRelevantFiles wideHost ''foo'' (min (configuredMaxFiles wideHost) 2) \<noteq> []"
    by (simp add: m wide_ranking_foo)
  have c: "buildAutoContext wideHost ''foo''
       = ''Additional relevant files:\<newline>\<newline>--- File 1: f1.ts ---\<newline>foo\<newline>\<newline>--- File 2: f2.ts ---\<newline>foo\<newline>\<newline>--- File 3: f3.ts ---\<newline>foo\<newline>\<newline>--- File 4: f4.ts ---\<newline>foo\<newline>\<newline>''"
    using rel4 auto_appends_relevant_files [OF wide, THEN conjunct1]
    by (simp add: app4 activeFileBlock_def wideHost_fields context_eval)
  have paths: "map (\<lambda>(j, f). path f) (appendedFiles wideHost ''foo'')
       = [''f1.ts'', ''f2.ts'', ''f3.ts'', ''f4.ts'']"
    by (simp add: app4)
  have over: "\<not> int (length (appendedFiles wideHost ''foo'')) \<le> min (- 1) 2"
    and over2: "\<not> length (appendedFiles wideHost ''foo'') \<le> 2"
    by (simp_all add: app4)
  show ?thesis
    by (intro conjI)
      (rule broad, rule app, rule skipped, rule setting, rule wide, rule five, rule paths,
        rule over, rule over2, rule c)
qed

text \<open>
  The setting 0 is replaced by 3, and two files are appended where min(0, 2) allows none.
\<close>

theorem auto_appends_relevant_files_counterexample:
  "maxContextFiles (exampleHost\<lparr>maxContextFiles := Some 0\<rparr>) = Some 0
   \<and> \<not> focusesOnCurrentFile (exampleHost\<lparr>maxContextFiles := Some 0\<rparr>) ''foo''
   \<and> appendedFiles (exampleHost\<lparr>maxContextFiles := Some 0\<rparr>) ''foo''
       = [(0, \<lparr>path = ''src/b.ts'', content = ''foo(foo)'', size_f = 8, score = 4\<rparr>),
          (1, \<lparr>path = ''a.ts'', content = ''foo = 1'', size_f = 7, score = 3\<rparr>)]
   \<and> \<not> int (length (appendedFiles (exampleHost\<lparr>maxContextFiles := Some 0\<rparr>) ''foo''))
         \<le> min 0 2
   \<and> buildAutoContext (exampleHost\<lparr>maxContextFiles := Some 0\<rparr>) ''foo''
       = ''Additional relevant files:\<newline>\<newline>--- File 1: src/b.ts ---\<newline>foo(foo)\<newline>\<newline>--- File 2: a.ts ---\<newline>foo = 1\<newline>\<newline>''"
proof -
  let ?h = "exampleHost\<lparr>maxContextFiles := Some 0\<rparr>"
  have broad: "\<not> focusesOnCurrentFile ?h ''foo''"
    by (simp add: focusesOnCurrentFile_def exampleHost_fields)
  have app: "appendedFiles ?h ''foo''
       = [(0, \<lparr>path = ''src/b.ts'', content = ''foo(foo)'', size_f = 8, score = 4\<rparr>),
          (1, \<lparr>path = ''a.ts'', content = ''foo = 1'', size_f = 7, score = 3\<rparr>)]"
    by (simp add: appendedFiles_def configuredMaxFiles_def example_ranking_foo
        getCurrentFileName_def exampleHost_fields duplicatesCurrent_def)
  have c: "buildAutoContext ?h ''foo''
       = ''Additional relevant files:\<newline>\<newline>--- File 1: src/b.ts ---\<newline>foo(foo)\<newline>\<newline>--- File 2: a.ts ---\<newline>foo = 1\<newline>\<newline>''"
    by (simp add: buildAutoContext_def getCurrentFileContent_def getCurrentFileName_def
        addRelevantFiles_def configuredMaxFiles_def exampleHost_fields
        example_ranking_foo duplicatesCurrent_def truncatedContent_def
        numberToString.simps digitChar_def Let_def)
  show ?thesis
    using broad app c by simp
qed

section \<open>The assembler's boundary\<close>

lemma list_all_dropWhile: "list_all P (dropWhile P s) = list_all P s"
  by (induction s) auto

lemma trim_empty_iff: "trim s = [] \<longleftrightarrow> list_all isWhiteSpace s"
proof -
  have "trim s = [] \<longleftrightarrow> list_all isWhiteSpace (dropWhile isWhiteSpace s)"
    by (simp add: trim_def dropWhile_eq_Nil_conv list_all_iff)
  then show ?thesis
    by (simp add: list_all_dropWhile)
qed

text \<open>
  C8. \<open>buildContextFromSelection\<close> always returns a string, never an exception, and the
  string is not empty: the assembled context when that has a character that is not white
  space, the "no specific code context" notice when it is empty or white space only, and
  the "error accessing codebase context" notice when the assembly threw. The rest of
  the \<open>try\<close> block and the \<open>catch\<close> do this for every outcome of the assembly.
\<close>

theorem buildContextFromSelection_fallback:
  "(\<exists>s. buildContextFromSelection cp h query = Inr s \<and> s \<noteq> []
        \<and> (case assembleContext cp h query of
              Inl e \<Rightarrow> s = ''Error accessing codebase context. Providing general assistance.''
            | Inr c \<Rightarrow>
                if list_all isWhiteSpace c
                then s = ''No specific code context found. Please provide general programming assistance.''
                else s = c))
   \<and> (\<exists>s. finishContext assembled = Inr s \<and> s \<noteq> []
        \<and> (case assembled of
              Inl e \<Rightarrow> s = ''Error accessing codebase context. Providing general assistance.''
            | Inr c \<Rightarrow>
                if list_all isWhiteSpace c
                then s = ''No specific code context found. Please provide general programming assistance.''
                else s = c))"
proof -
  have nonempty: "c \<noteq> []" if "\<not> list_all isWhiteSpace c" for c
    using that by auto
  have finish: "\<exists>s. finishContext a = Inr s \<and> s \<noteq> []
        \<and> (case a of
              Inl e \<Rightarrow> s = ''Error accessing codebase context. Providing general assistance.''
            | Inr c \<Rightarrow>
                if list_all isWhiteSpace c
                then s = ''No specific code context found. Please provide general programming assistance.''
                else s = c)" for a
    using nonempty by (cases a) (auto simp: finishContext_def trim_empty_iff)
  show ?thesis
    using finish [of "assembleContext cp h query"] finish [of assembled]
    by (simp add: buildContextFromSelection_def)
qed

text \<open>
  Auto mode with no editor and no workspace assembles the empty string, and the caller
  gets the notice; an exception in the assembly gives the other notice.
\<close>

theorem buildContextFromSelection_fallback_witness:
  "assembleContext (exampleProvider\<lparr>contextSelection := \<lparr>mode = Auto, selectedFiles = []\<rparr>\<rparr>)
     (exampleHost\<lparr>rootNode := None\<rparr>) ''hello'' = Inr []
   \<and> buildContextFromSelection
       (exampleProvider\<lparr>contextSelection := \<lparr>mode = Auto, selectedFiles = []\<rparr>\<rparr>)
       (exampleHost\<lparr>rootNode := None\<rparr>) ''hello''
       = Inr ''No specific code context found. Please provide general programming assistance.''
   \<and> finishContext (Inl TypeError)
       = Inr ''Error accessing codebase context. Providing general assistance.''"
proof -
  have a: "assembleContext
             (exampleProvider\<lparr>contextSelection := \<lparr>mode = Auto, selectedFiles = []\<rparr>\<rparr>)
             (exampleHost\<lparr>rootNode := None\<rparr>) ''hello'' = Inr []"
    by (simp add: assembleContext_def buildAutoContext_def getCurrentFileContent_def
        getCurrentFileName_def addRelevantFiles_def getRelevantFiles_def getAllCodeFiles_def
        exampleHost_fields Let_def)
  show ?thesis
    using a
      buildContextFromSelection_fallback [of
        "exampleProvider\<lparr>contextSelection := \<lparr>mode = Auto, selectedFiles = []\<rparr>\<rparr>"
        "exampleHost\<lparr>rootNode := None\<rparr>" "''hello''" "Inl TypeError"]
    by auto
qed

section \<open>Selected mode\<close>

lemma appendSelected_blocks:
  "appendSelected available selected context
   = context @ concat (map (\<lambda>p. case find (\<lambda>f. path f = p) available of
                                   None \<Rightarrow> [] | Some file \<Rightarrow> selectedBlock file) selected)"
  by (induction selected arbitrary: "context")
     (simp_all add: selectedBlock_def split: option.splits)

text \<open>
  C9. In selected mode an empty selection gives the "no files selected" notice. Otherwise
  the context is the header with the number of selected paths, followed, for each
  selected path in order, by the block (header line and full content) of the first
  available file with that path, and by nothing for a path that no available file has.
  The mode neither fails nor looks at the editor, the workspace or the query.
\<close>

theorem selected_files_context:
  "(selectedFiles (contextSelection cp) = [] \<longrightarrow>
      buildSelectedFilesContext cp
        = ''No files selected. Please select files using the file selector.'')
   \<and> (selectedFiles (contextSelection cp) \<noteq> [] \<longrightarrow>
      buildSelectedFilesContext cp
        = ''Selected files ('' @ numberToString (length (selectedFiles (contextSelection cp)))
          @ ''):\<newline>\<newline>''
          @ concat (map (\<lambda>p. case find (\<lambda>f. path f = p) (availableFiles cp) of
                                 None \<Rightarrow> [] | Some file \<Rightarrow> selectedBlock file)
                      (selectedFiles (contextSelection cp))))
   \<and> (\<forall>p. p \<notin> path ` set (availableFiles cp) \<longrightarrow>
          find (\<lambda>f. path f = p) (availableFiles cp) = None)
   \<and> (mode (contextSelection cp) = Selected \<longrightarrow>
        assembleContext cp h query = Inr (buildSelectedFilesContext cp))"
  by (auto simp: buildSelectedFilesContext_def Let_def appendSelected_blocks assembleContext_def
      find_None_iff)

text \<open>
  The example session: \<open>src/b.ts\<close> is emitted, \<open>gone.ts\<close> is skipped; and an empty
  selection gives the notice.
\<close>

theorem selected_files_context_witness:
  "buildSelectedFilesContext exampleProvider
     = ''Selected files (2):\<newline>\<newline>--- File: src/b.ts ---\<newline>foo(foo)\<newline>\<newline>''
   \<and> buildSelectedFilesContext
         (exampleProvider\<lparr>contextSelection := \<lparr>mode = Selected, selectedFiles = []\<rparr>\<rparr>)
       = ''No files selected. Please select files using the file selector.''
   \<and> assembleContext exampleProvider exampleHost ''hello''
       = Inr (buildSelectedFilesContext exampleProvider)"
proof -
  have sel: "selectedFiles (contextSelection exampleProvider) = [''src/b.ts'', ''gone.ts'']"
    and av: "availableFiles exampleProvider =
        [\<lparr>path = ''a.ts'', content = ''foo = 1'', size_f = 7, score = 2\<rparr>,
         \<lparr>path = ''src/b.ts'', content = ''foo(foo)'', size_f = 8, score = 2\<rparr>,
         \<lparr>path = ''src/c.ts'', content = ''bar()'', size_f = 5, score = 2\<rparr>]"
    and m: "mode (contextSelection exampleProvider) = Selected"
    by (simp_all add: exampleProvider_def)
  show ?thesis
    using selected_files_context [of exampleProvider exampleHost "''hello''"]
      selected_files_context [of
        "exampleProvider\<lparr>contextSelection := \<lparr>mode = Selected, selectedFiles = []\<rparr>\<rparr>"]
    by (simp add: sel av m selectedBlock_def numberToString.simps digitChar_def)
qed

text \<open>
  C10. In selected mode, when the selection is not empty and none of its N paths is the
  path of an available file, the context is exactly the header "Selected files (N):"
  and its blank line, with no file block; it is not white space only, so
  \<open>buildContextFromSelection\<close> returns it as it is and applies no fallback notice.
\<close>

theorem stale_selection_header_only:
  assumes "selectedFiles (contextSelection cp) \<noteq> []"
    and "\<forall>p \<in> set (selectedFiles (contextSelection cp)). p \<notin> path ` set (availableFiles cp)"
    and "mode (contextSelection cp) = Selected"
  shows "buildSelectedFilesContext cp
           = ''Selected files ('' @ numberToString (length (selectedFiles (contextSelection cp)))
             @ ''):\<newline>\<newline>''
         \<and> buildContextFromSelection cp h query = Inr (buildSelectedFilesContext cp)"
proof -
  have none: "find (\<lambda>f. path f = p) (availableFiles cp) = None"
    if "p \<in> set (selectedFiles (contextSelection cp))" for p
    using assms(2) that by (auto simp: find_None_iff)
  have blocks: "concat (map (\<lambda>p. case find (\<lambda>f. path f = p) (availableFiles cp) of
                                 None \<Rightarrow> [] | Some file \<Rightarrow> selectedBlock file)
                      (selectedFiles (contextSelection cp))) = []"
    using none by simp
  have header: "buildSelectedFilesContext cp
           = ''Selected files ('' @ numberToString (length (selectedFiles (contextSelection cp)))
             @ ''):\<newline>\<newline>''"
    using assms(1) blocks by (simp add: buildSelectedFilesContext_def Let_def appendSelected_blocks)
  have "\<not> list_all isWhiteSpace (buildSelectedFilesContext cp)"
    by (simp add: header isWhiteSpace_def)
  then show ?thesis
    using header assms(3)
    by (simp add: buildContextFromSelection_def assembleContext_def finishContext_def
        trim_empty_iff)
qed

text \<open>
  A selection of two paths that are both gone: the header announces 2 files and no
  block follows.
\<close>

theorem stale_selection_header_only_witness:
  "buildSelectedFilesContext
     (exampleProvider\<lparr>contextSelection := \<lparr>mode = Selected, selectedFiles = [''gone.ts'', ''old/x.ts'']\<rparr>\<rparr>)
     = ''Selected files (2):\<newline>\<newline>''
   \<and> buildContextFromSelection
       (exampleProvider\<lparr>contextSelection := \<lparr>mode = Selected, selectedFiles = [''gone.ts'', ''old/x.ts'']\<rparr>\<rparr>)
       exampleHost ''what is in these files''
       = Inr ''Selected files (2):\<newline>\<newline>''"
proof -
  let ?cp = "exampleProvider\<lparr>contextSelection :=
               \<lparr>mode = Selected, selectedFiles = [''gone.ts'', ''old/x.ts'']\<rparr>\<rparr>"
  have s: "selectedFiles (contextSelection ?cp) \<noteq> []"
    by simp
  have stale: "\<forall>p \<in> set (selectedFiles (contextSelection ?cp)). p \<notin> path ` set (availableFiles ?cp)"
    by (simp add: exampleProvider_def)
  have m: "mode (contextSelection ?cp) = Selected"
    by simp
  show ?thesis
    using stale_selection_header_only [OF s stale m, of exampleHost "''what is in these files''"]
    by (simp add: numberToString.simps digitChar_def)
qed

end
